theory Spec2Isabelle
  imports Complex_Main
begin

section \<open>The threshold cut of the classification notebook\<close>

text \<open>
  The notebook's last code cell defines \<open>plot_interactive_cut(threshold)\<close>. The function
  reads four module-level arrays: \<open>signal_probs\<close> and \<open>background_probs\<close> (the
  classifier's class-1 probabilities, NumPy arrays) and \<open>mass_signal\<close> and
  \<open>mass_background\<close> (the mass column of the same events, pandas Series). Between the
  plotting calls it computes three numbers:
  \<^verbatim>\<open>
    signal_pass = signal_probs > threshold
    background_pass = background_probs > threshold
    mass_signal_cut = mass_signal[signal_pass]
    mass_background_cut = mass_background[background_pass]
    signal_efficiency = len(mass_signal_cut) / len(mass_signal) if len(mass_signal) > 0 else 0
    background_rejection = 1 - len(mass_background_cut) / len(mass_background) if len(mass_background) > 0 else 0
    sensitivity = signal_efficiency / np.sqrt(len(mass_background_cut) + 1e-10)
  \<close>
  Floating-point numbers are modelled as real numbers, so rounding, infinities and NaN are
  outside the model. The calls into the plotting library are not modelled.
\<close>

subsection \<open>Data\<close>

text \<open>The module-level variables that the function reads.\<close>

record notebook =
  signal_probs :: "real list"
  background_probs :: "real list"
  mass_signal :: "real list"
  mass_background :: "real list"

text \<open>
  The numbers the function computes. The two counts are \<open>len(mass_signal_cut)\<close> and
  \<open>len(mass_background_cut)\<close>.
\<close>

record evaluation =
  signal_pass_count :: nat
  background_pass_count :: nat
  signal_efficiency :: real
  background_rejection :: real
  sensitivity :: real

datatype py_error = IndexError | ZeroDivisionError

subsection \<open>Array operations\<close>

text \<open>\<open>xs > t\<close> on a NumPy array: the element-wise comparison, as a new Boolean array.\<close>

definition np_greater :: "real list \<Rightarrow> real \<Rightarrow> bool list" where
  "np_greater xs t = map (\<lambda>x. x > t) xs"

text \<open>
  \<open>s[key]\<close> on a pandas Series with a Boolean array as the key: the entries at the
  positions where the key is true, as a new Series. A key of another length raises
  \<open>IndexError\<close>.
\<close>

definition series_getitem :: "real list \<Rightarrow> bool list \<Rightarrow> py_error + real list" where
  "series_getitem s key =
     (if length key \<noteq> length s then Inl IndexError
      else Inr (map fst (filter snd (zip s key))))"

text \<open>\<open>a / b\<close> on two Python integers (here two lengths): a zero divisor raises.\<close>

definition py_truediv :: "nat \<Rightarrow> nat \<Rightarrow> py_error + real" where
  "py_truediv a b = (if b = 0 then Inl ZeroDivisionError else Inr (real a / real b))"

text \<open>
  Sequencing: an exception raised by a step ends the call, otherwise the value of the step
  is passed on to the rest of the body.
\<close>

definition then_do :: "py_error + 'a \<Rightarrow> ('a \<Rightarrow> py_error + 'b) \<Rightarrow> py_error + 'b" where
  "then_do r f = (case r of Inl e \<Rightarrow> Inl e | Inr x \<Rightarrow> f x)"

subsection \<open>The function\<close>

text \<open>
  The function takes the notebook's variables and the threshold, and returns the variables
  as the call leaves them together with the numbers computed. No statement of the body
  assigns to a module-level name or updates an array in place: the comparisons and the
  mask selections build new arrays, and every assignment is to a local name.
\<close>

definition plot_interactive_cut :: "notebook \<Rightarrow> real \<Rightarrow> py_error + (notebook \<times> evaluation)" where
  "plot_interactive_cut nb threshold =
     (let signal_pass = np_greater (signal_probs nb) threshold;
          background_pass = np_greater (background_probs nb) threshold
      in
      then_do (series_getitem (mass_signal nb) signal_pass) (\<lambda>mass_signal_cut.
      then_do (series_getitem (mass_background nb) background_pass) (\<lambda>mass_background_cut.
      then_do (if length (mass_signal nb) > 0
               then py_truediv (length mass_signal_cut) (length (mass_signal nb))
               else Inr 0) (\<lambda>signal_efficiency.
      then_do (if length (mass_background nb) > 0
               then then_do (py_truediv (length mass_background_cut)
                               (length (mass_background nb)))
                      (\<lambda>q. Inr (1 - q))
               else Inr 0) (\<lambda>background_rejection.
      let sensitivity =
            signal_efficiency / sqrt (real (length mass_background_cut) + 1 / 10 ^ 10)
      in Inr (nb,
           \<lparr>signal_pass_count = length mass_signal_cut,
            background_pass_count = length mass_background_cut,
            signal_efficiency = signal_efficiency,
            background_rejection = background_rejection,
            sensitivity = sensitivity\<rparr>))))))"

text \<open>
  The last division has a NumPy number as its divisor, so it follows NumPy's rules and does
  not raise; its divisor is positive in any case.
\<close>

text \<open>
  In the notebook each mass Series is a column of the data frame whose rows were given to
  the classifier, so a mass Series and its score array have the same length.
\<close>

definition aligned :: "notebook \<Rightarrow> bool" where
  "aligned nb \<longleftrightarrow>
     length (mass_signal nb) = length (signal_probs nb) \<and>
     length (mass_background nb) = length (background_probs nb)"

subsection \<open>The evaluation as the specification words it\<close>

text \<open>The number of scores strictly greater than the threshold.\<close>

definition pass_count :: "real list \<Rightarrow> real \<Rightarrow> nat" where
  "pass_count scores t = length (filter (\<lambda>x. x > t) scores)"

definition evaluate_spec :: "real list \<Rightarrow> real list \<Rightarrow> real \<Rightarrow> evaluation" where
  "evaluate_spec signalScores backgroundScores threshold =
     \<lparr>signal_pass_count = pass_count signalScores threshold,
      background_pass_count = pass_count backgroundScores threshold,
      signal_efficiency =
        (if signalScores = [] then 0
         else real (pass_count signalScores threshold) / real (length signalScores)),
      background_rejection =
        (if backgroundScores = [] then 0
         else 1 - real (pass_count backgroundScores threshold) / real (length backgroundScores)),
      sensitivity =
        (if signalScores = [] then 0
         else real (pass_count signalScores threshold) / real (length signalScores))
        / sqrt (real (pass_count backgroundScores threshold) + 1 / 10 ^ 10)\<rparr>"

subsection \<open>Example notebooks\<close>

text \<open>The score arrays of the specification's example, with any two mass Series.\<close>

definition spec_example :: "real list \<Rightarrow> real list \<Rightarrow> notebook" where
  "spec_example ms mb =
     \<lparr>signal_probs = [9 / 10, 8 / 10, 4 / 10, 2 / 10],
      background_probs = [7 / 10, 3 / 10, 1 / 10, 5 / 100],
      mass_signal = ms,
      mass_background = mb\<rparr>"

definition example_notebook :: notebook where
  "example_notebook =
     spec_example [5, 51 / 10, 49 / 10, 52 / 10] [46 / 10, 48 / 10, 53 / 10, 54 / 10]"

definition empty_notebook :: notebook where
  "empty_notebook =
     \<lparr>signal_probs = [], background_probs = [], mass_signal = [], mass_background = []\<rparr>"

text \<open>200000 signal events of which only the last has a score above one half.\<close>

definition large_notebook :: notebook where
  "large_notebook =
     \<lparr>signal_probs = replicate 199999 0 @ [1],
      background_probs = [1 / 10],
      mass_signal = replicate 200000 5,
      mass_background = [5]\<rparr>"

section \<open>Properties\<close>

subsection \<open>Mask selection counts the scores above the threshold\<close>

lemma then_do_Inr: "then_do (Inr x) f = f x"
  by (simp add: then_do_def)

lemma then_do_Inl: "then_do (Inl e) f = Inl e"
  by (simp add: then_do_def)

lemma length_mask_select:
  "length s = length ps \<Longrightarrow>
   length (map fst (filter snd (zip s (map P ps)))) = length (filter P ps)"
  by (induction s ps rule: list_induct2) simp_all

lemma series_getitem_aligned:
  assumes "length s = length ps"
  shows "\<exists>cut. series_getitem s (np_greater ps t) = Inr cut \<and> length cut = pass_count ps t"
  using assms length_mask_select [of s ps "\<lambda>x. x > t"]
  by (simp add: series_getitem_def np_greater_def pass_count_def)

lemma plot_interactive_cut_aligned:
  assumes "aligned nb"
  shows "plot_interactive_cut nb t =
         Inr (nb, evaluate_spec (signal_probs nb) (background_probs nb) t)"
proof -
  from assms have ls: "length (mass_signal nb) = length (signal_probs nb)"
    and lb: "length (mass_background nb) = length (background_probs nb)"
    by (simp_all add: aligned_def)
  obtain sc where sc: "series_getitem (mass_signal nb) (np_greater (signal_probs nb) t) = Inr sc"
    "length sc = pass_count (signal_probs nb) t"
    using series_getitem_aligned [OF ls] by blast
  obtain bc where bc: "series_getitem (mass_background nb) (np_greater (background_probs nb) t) = Inr bc"
    "length bc = pass_count (background_probs nb) t"
    using series_getitem_aligned [OF lb] by blast
  show ?thesis
    by (simp add: plot_interactive_cut_def evaluate_spec_def py_truediv_def then_do_Inr
        Let_def sc bc ls lb)
qed

text \<open>When a mass Series and its score array differ in length, the selection raises.\<close>

lemma plot_interactive_cut_misaligned:
  assumes "\<not> aligned nb"
  shows "plot_interactive_cut nb t = Inl IndexError"
  using assms
  by (auto simp add: plot_interactive_cut_def aligned_def series_getitem_def np_greater_def
      then_do_Inl then_do_Inr Let_def)

lemma pass_count_le: "pass_count xs t \<le> length xs"
  by (simp add: pass_count_def)

lemma pass_count_antimono: "t1 \<le> t2 \<Longrightarrow> pass_count xs t2 \<le> pass_count xs t1"
  unfolding pass_count_def
  by (induction xs) auto

lemma pass_count_all: "\<forall>x\<in>set xs. t < x \<Longrightarrow> pass_count xs t = length xs"
  by (simp add: pass_count_def)

lemma pass_count_none: "\<forall>x\<in>set xs. x \<le> t \<Longrightarrow> pass_count xs t = 0"
  by (simp add: pass_count_def not_less)

lemma pass_count_pos: "\<exists>x\<in>set xs. t < x \<Longrightarrow> 0 < pass_count xs t"
  by (auto simp add: pass_count_def filter_empty_conv)

lemma pass_count_append: "pass_count (xs @ ys) t = pass_count xs t + pass_count ys t"
  by (simp add: pass_count_def)

lemma pass_count_replicate: "pass_count (replicate n x) t = (if x > t then n else 0)"
  by (simp add: pass_count_def)

lemma fraction_bounds:
  "0 \<le> real (pass_count xs t) / real (length xs) \<and>
   real (pass_count xs t) / real (length xs) \<le> 1"
  using pass_count_le [of xs t] by (simp add: divide_le_eq_1)

text \<open>The square root of the constant \<open>1e-10\<close>.\<close>

lemma sqrt_epsilon: "sqrt (1 / 10 ^ 10) = 1 / 10 ^ 5"
proof -
  have "(1 / 10 ^ 10 :: real) = (1 / 10 ^ 5)\<^sup>2"
    by (simp add: power2_eq_square)
  then show ?thesis
    by (simp only: real_sqrt_abs) simp
qed

lemma aligned_example_notebook: "aligned example_notebook"
  by (simp add: aligned_def example_notebook_def spec_example_def)

subsection \<open>The claims\<close>

text \<open>
  Claim C1. When each mass Series is as long as its score array, the function returns, for
  every threshold, the evaluation the specification describes: the two counts are the
  numbers of signal and of background scores strictly greater than the threshold, the
  signal efficiency is the signal count divided by the number of signal scores (0 for no
  scores), the background rejection is 1 minus the background count divided by the number
  of background scores (0 for no scores), and the sensitivity is the signal efficiency
  divided by the square root of the background count plus 1e-10.
\<close>

theorem evaluation_refines_spec:
  assumes "aligned nb"
  shows "plot_interactive_cut nb t =
         Inr (nb,
           \<lparr>signal_pass_count = length (filter (\<lambda>x. x > t) (signal_probs nb)),
            background_pass_count = length (filter (\<lambda>x. x > t) (background_probs nb)),
            signal_efficiency =
              (if signal_probs nb = [] then 0
               else real (length (filter (\<lambda>x. x > t) (signal_probs nb)))
                    / real (length (signal_probs nb))),
            background_rejection =
              (if background_probs nb = [] then 0
               else 1 - real (length (filter (\<lambda>x. x > t) (background_probs nb)))
                        / real (length (background_probs nb))),
            sensitivity =
              (if signal_probs nb = [] then 0
               else real (length (filter (\<lambda>x. x > t) (signal_probs nb)))
                    / real (length (signal_probs nb)))
              / sqrt (real (length (filter (\<lambda>x. x > t) (background_probs nb))) + 1 / 10 ^ 10)\<rparr>)"
  using plot_interactive_cut_aligned [OF assms, of t]
  by (simp add: evaluate_spec_def pass_count_def)


theorem evaluation_refines_spec_witness:
  "aligned example_notebook \<and>
   plot_interactive_cut example_notebook (1 / 4) =
     Inr (example_notebook,
       \<lparr>signal_pass_count = 3, background_pass_count = 2,
        signal_efficiency = 3 / 4, background_rejection = 1 / 2,
        sensitivity = (3 / 4) / sqrt (2 + 1 / 10 ^ 10)\<rparr>)"
  using evaluation_refines_spec [OF aligned_example_notebook, of "1 / 4"]
  by (simp add: aligned_example_notebook) (simp add: example_notebook_def spec_example_def)

text \<open>
  Claim C2. For the signal scores 0.9, 0.8, 0.4, 0.2 and the background scores 0.7, 0.3,
  0.1, 0.05 (with any mass Series of four entries each), the threshold 0.5 gives the counts
  2 and 1, signal efficiency 0.5, background rejection 0.75 and sensitivity
  0.5 / sqrt(1 + 1e-10); the threshold 0 gives signal efficiency 1 and background
  rejection 0; the threshold 1 gives signal efficiency 0 and background rejection 1.
\<close>

theorem spec_example_values:
  assumes "length ms = 4" and "length mb = 4"
  shows "plot_interactive_cut (spec_example ms mb) (5 / 10) =
           Inr (spec_example ms mb,
             \<lparr>signal_pass_count = 2, background_pass_count = 1,
              signal_efficiency = 5 / 10, background_rejection = 75 / 100,
              sensitivity = (5 / 10) / sqrt (1 + 1 / 10 ^ 10)\<rparr>) \<and>
         (\<exists>r. plot_interactive_cut (spec_example ms mb) 0 = Inr (spec_example ms mb, r) \<and>
              signal_efficiency r = 1 \<and> background_rejection r = 0) \<and>
         (\<exists>r. plot_interactive_cut (spec_example ms mb) 1 = Inr (spec_example ms mb, r) \<and>
              signal_efficiency r = 0 \<and> background_rejection r = 1)"
proof -
  have al: "aligned (spec_example ms mb)"
    using assms by (simp add: aligned_def spec_example_def)
  show ?thesis
    unfolding plot_interactive_cut_aligned [OF al]
    by (simp add: evaluate_spec_def pass_count_def spec_example_def)
qed

theorem spec_example_values_witness:
  "plot_interactive_cut example_notebook (5 / 10) =
     Inr (example_notebook,
       \<lparr>signal_pass_count = 2, background_pass_count = 1,
        signal_efficiency = 5 / 10, background_rejection = 75 / 100,
        sensitivity = (5 / 10) / sqrt (1 + 1 / 10 ^ 10)\<rparr>) \<and>
   (\<exists>r. plot_interactive_cut example_notebook 0 = Inr (example_notebook, r) \<and>
        signal_efficiency r = 1 \<and> background_rejection r = 0) \<and>
   (\<exists>r. plot_interactive_cut example_notebook 1 = Inr (example_notebook, r) \<and>
        signal_efficiency r = 0 \<and> background_rejection r = 1)"
  unfolding example_notebook_def
  using spec_example_values [of "[5, 51 / 10, 49 / 10, 52 / 10]"
      "[46 / 10, 48 / 10, 53 / 10, 54 / 10]"]
  by simp

text \<open>
  Claim C3. For every threshold the call returns without an exception; the signal
  efficiency is 0 when there are no signal scores, and the background rejection is 0 when
  there are no background scores.
\<close>

theorem empty_score_set_defaults:
  assumes "aligned nb"
  shows "\<exists>r. plot_interactive_cut nb t = Inr (nb, r) \<and>
             (signal_probs nb = [] \<longrightarrow> signal_efficiency r = 0) \<and>
             (background_probs nb = [] \<longrightarrow> background_rejection r = 0)"
  by (simp add: plot_interactive_cut_aligned [OF assms] evaluate_spec_def)

theorem empty_score_set_defaults_witness:
  "aligned empty_notebook \<and>
   (\<exists>r. plot_interactive_cut empty_notebook (1 / 2) = Inr (empty_notebook, r) \<and>
        signal_efficiency r = 0 \<and> background_rejection r = 0)"
proof -
  have al: "aligned empty_notebook"
    by (simp add: aligned_def empty_notebook_def)
  show ?thesis
    using al empty_score_set_defaults [OF al, of "1 / 2"]
    by (simp add: empty_notebook_def)
qed

text \<open>
  Claim C4. For score arrays of any length and every threshold, the signal efficiency and
  the background rejection returned lie between 0 and 1, both ends included.
\<close>

theorem efficiency_rejection_in_unit_interval:
  assumes "aligned nb"
  shows "\<exists>r. plot_interactive_cut nb t = Inr (nb, r) \<and>
             0 \<le> signal_efficiency r \<and> signal_efficiency r \<le> 1 \<and>
             0 \<le> background_rejection r \<and> background_rejection r \<le> 1"
  using fraction_bounds [of "signal_probs nb" t] fraction_bounds [of "background_probs nb" t]
  by (simp add: plot_interactive_cut_aligned [OF assms] evaluate_spec_def)

theorem efficiency_rejection_in_unit_interval_witness:
  "\<exists>r. plot_interactive_cut example_notebook (1 / 2) = Inr (example_notebook, r) \<and>
       0 \<le> signal_efficiency r \<and> signal_efficiency r \<le> 1 \<and>
       0 \<le> background_rejection r \<and> background_rejection r \<le> 1"
  using efficiency_rejection_in_unit_interval [OF aligned_example_notebook, of "1 / 2"]
  by simp

text \<open>
  Claim C5. For fixed score arrays the signal efficiency does not increase with the
  threshold: for thresholds \<open>t1 \<le> t2\<close> (anywhere on the real line, so in particular in
  the interval from 0 to 1) the efficiency at \<open>t2\<close> is at most the efficiency at \<open>t1\<close>.
\<close>

theorem signal_efficiency_antimono:
  assumes "aligned nb" and "t1 \<le> t2"
  shows "\<exists>r1 r2. plot_interactive_cut nb t1 = Inr (nb, r1) \<and>
                 plot_interactive_cut nb t2 = Inr (nb, r2) \<and>
                 signal_efficiency r2 \<le> signal_efficiency r1"
  using pass_count_antimono [OF assms(2), of "signal_probs nb"]
  by (simp add: plot_interactive_cut_aligned [OF assms(1)] evaluate_spec_def divide_right_mono)

theorem signal_efficiency_antimono_witness:
  "\<exists>r1 r2. plot_interactive_cut example_notebook (1 / 4) = Inr (example_notebook, r1) \<and>
           plot_interactive_cut example_notebook (1 / 2) = Inr (example_notebook, r2) \<and>
           signal_efficiency r2 \<le> signal_efficiency r1"
  using signal_efficiency_antimono [OF aligned_example_notebook, of "1 / 4" "1 / 2"]
  by simp

text \<open>
  Claim C6. For non-empty score arrays: when every score is strictly above 0, the threshold
  0 gives signal efficiency 1 and background rejection 0; when every score is at most 1,
  the threshold 1 gives signal efficiency 0 and background rejection 1.
\<close>

theorem endpoint_thresholds:
  assumes "aligned nb" and "signal_probs nb \<noteq> []" and "background_probs nb \<noteq> []"
  shows "((\<forall>x\<in>set (signal_probs nb) \<union> set (background_probs nb). 0 < x) \<longrightarrow>
            (\<exists>r. plot_interactive_cut nb 0 = Inr (nb, r) \<and>
                 signal_efficiency r = 1 \<and> background_rejection r = 0)) \<and>
         ((\<forall>x\<in>set (signal_probs nb) \<union> set (background_probs nb). x \<le> 1) \<longrightarrow>
            (\<exists>r. plot_interactive_cut nb 1 = Inr (nb, r) \<and>
                 signal_efficiency r = 0 \<and> background_rejection r = 1))"
  using assms(2,3)
  by (simp add: plot_interactive_cut_aligned [OF assms(1)] evaluate_spec_def
      pass_count_all pass_count_none)

theorem endpoint_thresholds_witness:
  "(\<exists>r. plot_interactive_cut example_notebook 0 = Inr (example_notebook, r) \<and>
        signal_efficiency r = 1 \<and> background_rejection r = 0) \<and>
   (\<exists>r. plot_interactive_cut example_notebook 1 = Inr (example_notebook, r) \<and>
        signal_efficiency r = 0 \<and> background_rejection r = 1)"
proof -
  have ne: "signal_probs example_notebook \<noteq> []" "background_probs example_notebook \<noteq> []"
    by (simp_all add: example_notebook_def spec_example_def)
  have pos: "\<forall>x\<in>set (signal_probs example_notebook) \<union> set (background_probs example_notebook). 0 < x"
    by (simp add: example_notebook_def spec_example_def)
  have le1: "\<forall>x\<in>set (signal_probs example_notebook) \<union> set (background_probs example_notebook). x \<le> 1"
    by (simp add: example_notebook_def spec_example_def)
  show ?thesis
    using endpoint_thresholds [OF aligned_example_notebook ne] pos le1 by blast
qed

text \<open>
  Claim C7. The numbers computed depend on the two score arrays and the threshold only, and
  the call leaves the arrays as they were: two notebooks with the same score arrays give the
  same evaluation at the same threshold, and each is returned unchanged. With the same
  notebook taken twice, this says that a second call, made on the variables as the first
  call left them, returns the same three numbers.
\<close>

theorem evaluation_pure:
  assumes "aligned nb1" and "aligned nb2"
    and "signal_probs nb2 = signal_probs nb1"
    and "background_probs nb2 = background_probs nb1"
  shows "\<exists>r. plot_interactive_cut nb1 t = Inr (nb1, r) \<and>
             plot_interactive_cut nb2 t = Inr (nb2, r)"
  by (simp add: plot_interactive_cut_aligned [OF assms(1)]
      plot_interactive_cut_aligned [OF assms(2)] assms(3,4))

theorem evaluation_pure_witness:
  "\<exists>r. plot_interactive_cut example_notebook (1 / 2) = Inr (example_notebook, r) \<and>
       plot_interactive_cut (spec_example [5, 5, 5, 5] [47 / 10, 47 / 10, 47 / 10, 47 / 10]) (1 / 2) =
         Inr (spec_example [5, 5, 5, 5] [47 / 10, 47 / 10, 47 / 10, 47 / 10], r)"
proof -
  have al: "aligned (spec_example [5, 5, 5, 5] [47 / 10, 47 / 10, 47 / 10, 47 / 10])"
    by (simp add: aligned_def spec_example_def)
  have sp: "signal_probs (spec_example [5, 5, 5, 5] [47 / 10, 47 / 10, 47 / 10, 47 / 10]) =
              signal_probs example_notebook"
    and bp: "background_probs (spec_example [5, 5, 5, 5] [47 / 10, 47 / 10, 47 / 10, 47 / 10]) =
              background_probs example_notebook"
    by (simp_all add: example_notebook_def spec_example_def)
  show ?thesis
    by (rule evaluation_pure [OF aligned_example_notebook al sp bp])
qed

text \<open>
  Claim C8. For non-empty score arrays with every score between 0 and 1, a threshold
  outside that interval does not make the call fail: above 1 it gives signal efficiency 0
  and background rejection 1, below 0 it gives signal efficiency 1 and background
  rejection 0.
\<close>

theorem out_of_range_threshold:
  assumes "aligned nb" and "signal_probs nb \<noteq> []" and "background_probs nb \<noteq> []"
    and "\<forall>x\<in>set (signal_probs nb) \<union> set (background_probs nb). 0 \<le> x \<and> x \<le> 1"
  shows "(1 < t \<longrightarrow>
            (\<exists>r. plot_interactive_cut nb t = Inr (nb, r) \<and>
                 signal_efficiency r = 0 \<and> background_rejection r = 1)) \<and>
         (t < 0 \<longrightarrow>
            (\<exists>r. plot_interactive_cut nb t = Inr (nb, r) \<and>
                 signal_efficiency r = 1 \<and> background_rejection r = 0))"
proof (intro conjI impI)
  assume "1 < t"
  with assms(4) have "\<forall>x\<in>set (signal_probs nb). x \<le> t"
    and "\<forall>x\<in>set (background_probs nb). x \<le> t"
    by (simp_all add: ball_Un) force+
  then show "\<exists>r. plot_interactive_cut nb t = Inr (nb, r) \<and>
                 signal_efficiency r = 0 \<and> background_rejection r = 1"
    using assms(2,3)
    by (simp add: plot_interactive_cut_aligned [OF assms(1)] evaluate_spec_def pass_count_none)
next
  assume "t < 0"
  with assms(4) have "\<forall>x\<in>set (signal_probs nb). t < x"
    and "\<forall>x\<in>set (background_probs nb). t < x"
    by (simp_all add: ball_Un) force+
  then show "\<exists>r. plot_interactive_cut nb t = Inr (nb, r) \<and>
                 signal_efficiency r = 1 \<and> background_rejection r = 0"
    using assms(2,3)
    by (simp add: plot_interactive_cut_aligned [OF assms(1)] evaluate_spec_def pass_count_all)
qed

theorem out_of_range_threshold_witness:
  "(\<exists>r. plot_interactive_cut example_notebook 2 = Inr (example_notebook, r) \<and>
        signal_efficiency r = 0 \<and> background_rejection r = 1) \<and>
   (\<exists>r. plot_interactive_cut example_notebook (- 1) = Inr (example_notebook, r) \<and>
        signal_efficiency r = 1 \<and> background_rejection r = 0)"
proof -
  have ne: "signal_probs example_notebook \<noteq> []" "background_probs example_notebook \<noteq> []"
    by (simp_all add: example_notebook_def spec_example_def)
  have rng: "\<forall>x\<in>set (signal_probs example_notebook) \<union> set (background_probs example_notebook).
               0 \<le> x \<and> x \<le> 1"
    by (simp add: example_notebook_def spec_example_def)
  show ?thesis
    using out_of_range_threshold [OF aligned_example_notebook ne rng, of 2]
      out_of_range_threshold [OF aligned_example_notebook ne rng, of "- 1"]
    by simp
qed

text \<open>
  Claim C9. For a fixed non-empty background score array the background rejection does not
  decrease with the threshold: for thresholds \<open>t1 \<le> t2\<close> the rejection at \<open>t1\<close> is at
  most the rejection at \<open>t2\<close>.
\<close>

theorem background_rejection_mono:
  assumes "aligned nb" and "background_probs nb \<noteq> []" and "t1 \<le> t2"
  shows "\<exists>r1 r2. plot_interactive_cut nb t1 = Inr (nb, r1) \<and>
                 plot_interactive_cut nb t2 = Inr (nb, r2) \<and>
                 background_rejection r1 \<le> background_rejection r2"
  using pass_count_antimono [OF assms(3), of "background_probs nb"] assms(2)
  by (simp add: plot_interactive_cut_aligned [OF assms(1)] evaluate_spec_def divide_right_mono)

theorem background_rejection_mono_witness:
  "\<exists>r1 r2. plot_interactive_cut example_notebook (1 / 4) = Inr (example_notebook, r1) \<and>
           plot_interactive_cut example_notebook (1 / 2) = Inr (example_notebook, r2) \<and>
           background_rejection r1 \<le> background_rejection r2"
proof -
  have ne: "background_probs example_notebook \<noteq> []"
    by (simp add: example_notebook_def spec_example_def)
  show ?thesis
    using background_rejection_mono [OF aligned_example_notebook ne, of "1 / 4" "1 / 2"]
    by simp
qed


text \<open>
  Claim C10, as amended. When no background score exceeds the threshold, the background
  count is 0 and the sensitivity is the signal efficiency divided by sqrt(1e-10), that is
  the signal efficiency times \<open>10\<^sup>5\<close>. So the sensitivity is not bounded by 1: it
  exceeds 1 for every signal array of fewer than \<open>10\<^sup>5\<close> scores with at least one
  score above the threshold.
\<close>

theorem sensitivity_without_background:
  assumes "aligned nb" and "\<forall>x\<in>set (background_probs nb). x \<le> t"
  shows "\<exists>r. plot_interactive_cut nb t = Inr (nb, r) \<and>
             background_pass_count r = 0 \<and>
             sensitivity r = signal_efficiency r / sqrt (1 / 10 ^ 10) \<and>
             sensitivity r = signal_efficiency r * 10 ^ 5 \<and>
             ((\<exists>x\<in>set (signal_probs nb). x > t) \<and> length (signal_probs nb) < 10 ^ 5
                \<longrightarrow> 1 < sensitivity r)"
proof -
  let ?r = "evaluate_spec (signal_probs nb) (background_probs nb) t"
  have run: "plot_interactive_cut nb t = Inr (nb, ?r)"
    by (rule plot_interactive_cut_aligned [OF assms(1)])
  have bg: "background_pass_count ?r = 0"
    by (simp add: evaluate_spec_def pass_count_none [OF assms(2)])
  have s1: "sensitivity ?r = signal_efficiency ?r / sqrt (1 / 10 ^ 10)"
    by (simp add: evaluate_spec_def pass_count_none [OF assms(2)])
  have s2: "sensitivity ?r = signal_efficiency ?r * 10 ^ 5"
    unfolding s1 sqrt_epsilon by simp
  have s3: "1 < sensitivity ?r"
    if some: "\<exists>x\<in>set (signal_probs nb). x > t"
      and small: "length (signal_probs nb) < 10 ^ 5"
  proof -
    from some have ne: "signal_probs nb \<noteq> []"
      by auto
    have "1 \<le> pass_count (signal_probs nb) t"
      using pass_count_pos [of "signal_probs nb" t] some by simp
    then have "(100000::nat) \<le> pass_count (signal_probs nb) t * 100000"
      by simp
    with small have "length (signal_probs nb) < pass_count (signal_probs nb) t * 100000"
      by simp
    then have "real (length (signal_probs nb)) < real (pass_count (signal_probs nb) t * 100000)"
      by (simp only: of_nat_less_iff)
    then have "real (length (signal_probs nb)) < real (pass_count (signal_probs nb) t) * 10 ^ 5"
      by simp
    then show ?thesis
      unfolding s2 using ne by (simp add: evaluate_spec_def pos_less_divide_eq)
  qed
  show ?thesis
    using run bg s1 s2 s3 by blast
qed

theorem sensitivity_without_background_witness:
  "\<exists>r. plot_interactive_cut example_notebook (3 / 4) = Inr (example_notebook, r) \<and>
       background_pass_count r = 0 \<and>
       sensitivity r = signal_efficiency r * 10 ^ 5 \<and>
       1 < sensitivity r"
proof -
  have bg: "\<forall>x\<in>set (background_probs example_notebook). x \<le> 3 / 4"
    by (simp add: example_notebook_def spec_example_def)
  have some: "\<exists>x\<in>set (signal_probs example_notebook). x > 3 / 4"
    by (simp add: example_notebook_def spec_example_def)
  have small: "length (signal_probs example_notebook) < 10 ^ 5"
    by (simp add: example_notebook_def spec_example_def)
  show ?thesis
    using sensitivity_without_background [OF aligned_example_notebook bg] some small
    by blast
qed

text \<open>
  The claim as first worded fails: with 200000 signal scores of which one is above the
  threshold, and no background score above it, the sensitivity is one half.
\<close>

theorem sensitivity_above_one_counterexample:
  "plot_interactive_cut large_notebook (1 / 2) =
     Inr (large_notebook,
       \<lparr>signal_pass_count = 1, background_pass_count = 0,
        signal_efficiency = 1 / 200000, background_rejection = 1,
        sensitivity = 1 / 2\<rparr>) \<and>
   \<not> 1 < sensitivity (snd (projr (plot_interactive_cut large_notebook (1 / 2))))"
proof -
  have al: "aligned large_notebook"
    by (simp add: aligned_def large_notebook_def)
  have sp: "pass_count (signal_probs large_notebook) (1 / 2) = 1"
    by (simp add: large_notebook_def pass_count_append pass_count_replicate)
      (simp add: pass_count_def)
  have bp: "pass_count (background_probs large_notebook) (1 / 2) = 0"
    by (simp add: large_notebook_def pass_count_def)
  have ls: "length (signal_probs large_notebook) = 200000"
    by (simp add: large_notebook_def)
  have lb: "length (background_probs large_notebook) = 1"
    by (simp add: large_notebook_def)
  have ne: "signal_probs large_notebook \<noteq> []" "background_probs large_notebook \<noteq> []"
    by (simp_all add: large_notebook_def)
  show ?thesis
    unfolding plot_interactive_cut_aligned [OF al]
    using sqrt_epsilon by (simp add: evaluate_spec_def sp bp ls lb ne)
qed

end
